theory Spec2Isabelle
  imports Complex_Main "HOL-Library.Log_Nat"
begin

unbundle bit_operations_syntax

section \<open>The async polling client of the Supermodel SDK (src/async.ts)\<close>

text \<open>
  A shallow embedding of \<^verbatim>\<open>pollUntilComplete\<close>, \<^verbatim>\<open>sleepWithAbort\<close> and
  \<^verbatim>\<open>defaultGenerateIdempotencyKey\<close>.

  Conventions of the embedding.
  \<^item> A JavaScript \<^verbatim>\<open>number\<close> is the rational it stands for (\<^typ>\<open>rat\<close>); the attempt
    counter is a \<^typ>\<open>nat\<close>. The division and the multiplication of the retry delay round
    their results to double precision (\<open>round_double\<close>). Readings of \<^verbatim>\<open>Date.now()\<close>
    are whole milliseconds far below \<open>2^53\<close>, where the subtraction is exact, and
    multiplying a double below 1 by 16 is exact. \<^verbatim>\<open>NaN\<close> and the infinities are outside
    the model.
  \<^item> An optional field (\<^verbatim>\<open>x?: T\<close>) is a \<^typ>\<open>'a option\<close>, \<open>None\<close> being
    \<^verbatim>\<open>undefined\<close>.
  \<^item> A thrown exception or rejected promise is \<open>Inl\<close> of a \<open>js_error\<close>, a returned
    value is \<open>Inr\<close>.
  \<^item> The surroundings of the poller are explicit arguments: \<open>dateNow k\<close> is the value
    of the \<open>k\<close>-th reading of \<^verbatim>\<open>Date.now()\<close> (reading \<open>0\<close> is \<^verbatim>\<open>startTime\<close>, reading
    \<open>k\<close> is the one taken during attempt \<open>k\<close>), \<open>apiCall k\<close> is what the \<open>k\<close>-th
    invocation of the submit/check operation settles with, \<open>timer k ms\<close> is the time
    after which the platform fires the timer that the wait of attempt \<open>k\<close> sets with
    \<^verbatim>\<open>setTimeout(f, ms)\<close>, and the cancellation handle is given by its state at each moment
    the code looks at it. Every promise of the surroundings settles, and the progress
    callback returns normally.
  \<^item> The result of a run is the list of attempts that issued their call (one \<open>round\<close>
    each, in order) together with the value returned or the error thrown.
\<close>

subsection \<open>Data model\<close>

text \<open>\<^verbatim>\<open>interface AsyncEnvelope<T>\<close>\<close>

record 'a AsyncEnvelope =
  status :: string
  jobId :: string
  retryAfter :: "rat option"
  error :: "string option"
  result :: "'a option"

text \<open>\<^verbatim>\<open>interface PollingProgress\<close> (the fields \<^verbatim>\<open>jobId\<close> and \<^verbatim>\<open>status\<close> carry a
  prefix, the envelope has fields of the same names).\<close>

record PollingProgress =
  progress_jobId :: string
  progress_status :: string
  attempt :: nat
  maxAttempts :: rat
  elapsedMs :: rat
  nextRetryMs :: "rat option"

text \<open>
  The cancellation handle as the code finds it at one moment: the flag \<^verbatim>\<open>aborted\<close>,
  and, for a handle not yet aborted, after how many milliseconds the \<^verbatim>\<open>abort\<close> event
  will be dispatched to a listener registered at that moment (\<open>None\<close>: never).
\<close>

record AbortSignal =
  aborted :: bool
  abortEventAfter :: "rat option"

text \<open>The two places where the poller looks at the handle, for attempt \<open>k\<close>: the check at
  the top of the iteration, and the call of \<^verbatim>\<open>sleepWithAbort\<close>.\<close>

datatype moment = AtCheck nat | AtWait nat

text \<open>\<^verbatim>\<open>interface AsyncClientOptions\<close>, without \<^verbatim>\<open>generateIdempotencyKey\<close> (the poller
  does not read it). \<open>onPollingProgress\<close> says whether a callback is configured; what it
  is called with is recorded in the round.\<close>

record AsyncClientOptions =
  timeoutMs :: "rat option"
  defaultRetryIntervalMs :: "rat option"
  maxPollingAttempts :: "rat option"
  onPollingProgress :: bool
  signal :: "(moment \<Rightarrow> AbortSignal) option"

text \<open>The errors: \<^verbatim>\<open>new Error('Polling aborted')\<close> renamed \<^verbatim>\<open>'AbortError'\<close>,
  \<^verbatim>\<open>PollingTimeoutError(jobId, timeoutMs, attempts)\<close>, \<^verbatim>\<open>JobFailedError(jobId, errorMessage)\<close>,
  a plain \<^verbatim>\<open>Error(message)\<close>, and what the submit/check operation rejects with (passed
  on as it is, here with its own name and message).\<close>

datatype js_error =
    AbortError
  | PollingTimeoutError string rat nat
  | JobFailedError string string
  | Error string
  | TransportError string string

fun error_name :: "js_error \<Rightarrow> string" where
  "error_name AbortError = ''AbortError''"
| "error_name (PollingTimeoutError j t n) = ''PollingTimeoutError''"
| "error_name (JobFailedError j m) = ''JobFailedError''"
| "error_name (Error m) = ''Error''"
| "error_name (TransportError name m) = name"

text \<open>What one invocation of the submit/check operation settles with.\<close>

datatype 'a reply = Resolves "'a AsyncEnvelope" | Rejects string string

text \<open>One attempt that issued its call: the reply, the argument of the progress callback
  (when one is configured), the duration passed to \<^verbatim>\<open>sleepWithAbort\<close> (when the retry
  branch is taken) and how that wait ended (time waited, outcome).\<close>

record 'a round =
  reply :: "'a reply"
  notified :: "PollingProgress option"
  waitMs :: "rat option"
  waitEnd :: "(rat \<times> (js_error + unit)) option"

type_synonym 'a run = "'a round list \<times> (js_error + 'a)"

definition calls :: "'a run \<Rightarrow> nat" where
  "calls r = length (fst r)"

definition outcome :: "'a run \<Rightarrow> js_error + 'a" where
  "outcome r = snd r"

subsection \<open>JavaScript operators\<close>

text \<open>\<^verbatim>\<open>s || d\<close> on a string: the empty string is falsy.\<close>

definition str_or :: "string \<Rightarrow> string \<Rightarrow> string" where
  "str_or s d = (if s = [] then d else s)"

text \<open>\<^verbatim>\<open>s || d\<close> on an optional string: \<^verbatim>\<open>undefined\<close> and the empty string are falsy.\<close>

definition opt_str_or :: "string option \<Rightarrow> string \<Rightarrow> string" where
  "opt_str_or s d = (case s of None \<Rightarrow> d | Some m \<Rightarrow> str_or m d)"

text \<open>\<^verbatim>\<open>x || d\<close> on an optional number: \<^verbatim>\<open>undefined\<close> and \<open>0\<close> are falsy, every other
  number (a negative one too) is truthy.\<close>

definition opt_num_or :: "rat option \<Rightarrow> rat \<Rightarrow> rat" where
  "opt_num_or x d = (case x of None \<Rightarrow> d | Some v \<Rightarrow> if v = 0 then d else v)"

text \<open>
  Double precision. \<open>binade q\<close> is the exponent \<open>e\<close> with \<open>2^e \<le> \<bar>q\<bar> < 2^(e+1)\<close>;
  \<open>round_double q\<close> is the double nearest to \<open>q\<close>, a multiple of \<open>2^(e-52)\<close> (of
  \<open>2^-1074\<close> in the subnormal range), ties going to the even multiple.
  \<^verbatim>\<open>a / b\<close> and \<^verbatim>\<open>a * b\<close> are the exact quotient and product, rounded.
\<close>

definition binade :: "rat \<Rightarrow> int" where
  "binade q =
     (let (a, b) = quotient_of \<bar>q\<bar>;
          e = bitlen a - bitlen b
      in if 2 powi e \<le> \<bar>q\<bar> then e else e - 1)"

definition round_half_even :: "rat \<Rightarrow> int" where
  "round_half_even m =
     (let f = \<lfloor>m\<rfloor>;
          r = m - of_int f
      in if r < 1 / 2 then f
         else if 1 / 2 < r then f + 1
         else if even f then f else f + 1)"

definition round_double :: "rat \<Rightarrow> rat" where
  "round_double q =
     (if q = 0 then 0
      else let p = max (binade q - 52) (- 1074)
           in of_int (round_half_even (q / 2 powi p)) * 2 powi p)"

definition js_div :: "rat \<Rightarrow> rat \<Rightarrow> rat" where
  "js_div a b = round_double (a / b)"

definition js_mul :: "rat \<Rightarrow> rat \<Rightarrow> rat" where
  "js_mul a b = round_double (a * b)"

text \<open>\<^verbatim>\<open>x | 0\<close> (ToInt32): truncate towards zero, wrap modulo \<open>2^32\<close>, read as signed.\<close>

definition toInt32 :: "rat \<Rightarrow> int" where
  "toInt32 q =
     (let t = (if 0 \<le> q then \<lfloor>q\<rfloor> else \<lceil>q\<rceil>);
          m = t mod 2 ^ 32
      in if 2 ^ 31 \<le> m then m - 2 ^ 32 else m)"

text \<open>\<^verbatim>\<open>v.toString(16)\<close> on an integer.\<close>

definition hex_digit :: "nat \<Rightarrow> char" where
  "hex_digit n = ''0123456789abcdef'' ! (n mod 16)"

fun hex_digits :: "nat \<Rightarrow> string" where
  "hex_digits n = (if n < 16 then [hex_digit n] else hex_digits (n div 16) @ [hex_digit n])"

declare hex_digits.simps [simp del]

definition toString16 :: "int \<Rightarrow> string" where
  "toString16 v = (if v < 0 then CHR ''-'' # hex_digits (nat (- v)) else hex_digits (nat v))"

subsection \<open>\<^verbatim>\<open>defaultGenerateIdempotencyKey\<close>\<close>

text \<open>The callback of \<^verbatim>\<open>replace\<close>, given the value \<open>x\<close> drawn from \<^verbatim>\<open>Math.random()\<close>
  and the matched character \<open>c\<close>.\<close>

definition replacer :: "rat \<Rightarrow> char \<Rightarrow> string" where
  "replacer x c =
     (let r = toInt32 (x * 16);
          v = (if c = CHR ''x'' then r else (r AND 3) OR 8)
      in toString16 v)"

text \<open>\<^verbatim>\<open>template.replace(/[xy]/g, callback)\<close>: every \<^verbatim>\<open>x\<close> and \<^verbatim>\<open>y\<close>, from left to
  right, is replaced by what the callback returns; the \<open>i\<close>-th invocation of the callback
  draws \<open>random i\<close>.\<close>

fun replace_xy :: "(nat \<Rightarrow> rat) \<Rightarrow> nat \<Rightarrow> string \<Rightarrow> string" where
  "replace_xy random i [] = []"
| "replace_xy random i (c # cs) =
     (if c = CHR ''x'' \<or> c = CHR ''y''
      then replacer (random i) c @ replace_xy random (Suc i) cs
      else c # replace_xy random i cs)"

text \<open>\<open>cryptoRandomUUID\<close> is the result of \<^verbatim>\<open>crypto.randomUUID()\<close> where the platform
  has it, \<open>None\<close> where it does not.\<close>

definition defaultGenerateIdempotencyKey :: "string option \<Rightarrow> (nat \<Rightarrow> rat) \<Rightarrow> string" where
  "defaultGenerateIdempotencyKey cryptoRandomUUID random =
     (case cryptoRandomUUID of
        Some uuid \<Rightarrow> uuid
      | None \<Rightarrow> replace_xy random 0 ''xxxxxxxx-xxxx-4xxx-yxxx-xxxxxxxxxxxx'')"

subsection \<open>\<^verbatim>\<open>sleepWithAbort\<close>\<close>

text \<open>
  \<open>fires ms\<close> is the time after which the platform runs the callback of
  \<^verbatim>\<open>setTimeout(callback, ms)\<close> in this call. The result is the time the wait took and how
  the promise settled. A handle already aborted rejects at once and starts no timer.
  Otherwise the timer and the \<^verbatim>\<open>abort\<close> listener race: an event dispatched before the
  timer fires clears the timer and rejects.
\<close>

definition sleepWithAbort ::
  "(rat \<Rightarrow> rat) \<Rightarrow> rat \<Rightarrow> AbortSignal option \<Rightarrow> rat \<times> (js_error + unit)" where
  "sleepWithAbort fires ms sig =
     (case sig of
        None \<Rightarrow> (fires ms, Inr ())
      | Some s \<Rightarrow>
          if aborted s then (0, Inl AbortError)
          else (case abortEventAfter s of
                  None \<Rightarrow> (fires ms, Inr ())
                | Some d \<Rightarrow>
                    if d < fires ms then (d, Inl AbortError)
                    else (fires ms, Inr ())))"

subsection \<open>\<^verbatim>\<open>pollUntilComplete\<close>\<close>

text \<open>The destructuring of \<^verbatim>\<open>options\<close> with its defaults.\<close>

definition the_timeoutMs :: "AsyncClientOptions \<Rightarrow> rat" where
  "the_timeoutMs options = (case timeoutMs options of None \<Rightarrow> 900000 | Some t \<Rightarrow> t)"

definition the_defaultRetryIntervalMs :: "AsyncClientOptions \<Rightarrow> rat" where
  "the_defaultRetryIntervalMs options =
     (case defaultRetryIntervalMs options of None \<Rightarrow> 10000 | Some t \<Rightarrow> t)"

definition the_maxPollingAttempts :: "AsyncClientOptions \<Rightarrow> rat" where
  "the_maxPollingAttempts options =
     (case maxPollingAttempts options of None \<Rightarrow> 90 | Some n \<Rightarrow> n)"

text \<open>\<^verbatim>\<open>signal\<close> as it is at moment \<open>m\<close> (\<open>None\<close>: no handle was passed).\<close>

definition signal_at :: "AsyncClientOptions \<Rightarrow> moment \<Rightarrow> AbortSignal option" where
  "signal_at options m = (case signal options of None \<Rightarrow> None | Some s \<Rightarrow> Some (s m))"

text \<open>\<^verbatim>\<open>signal?.aborted\<close> at the top of the iteration that makes attempt \<open>k\<close>.\<close>

definition signal_aborted :: "AsyncClientOptions \<Rightarrow> nat \<Rightarrow> bool" where
  "signal_aborted options k =
     (case signal_at options (AtCheck k) of None \<Rightarrow> False | Some s \<Rightarrow> aborted s)"

text \<open>\<^verbatim>\<open>(response.retryAfter || defaultRetryIntervalMs / 1000) * 1000\<close>\<close>

definition retryAfterMs :: "AsyncClientOptions \<Rightarrow> 'a AsyncEnvelope \<Rightarrow> rat" where
  "retryAfterMs options response =
     js_mul (opt_num_or (retryAfter response)
               (js_div (the_defaultRetryIntervalMs options) 1000)) 1000"

text \<open>The argument of \<^verbatim>\<open>onPollingProgress\<close>.\<close>

definition progress ::
  "AsyncClientOptions \<Rightarrow> 'a AsyncEnvelope \<Rightarrow> nat \<Rightarrow> rat \<Rightarrow> PollingProgress option" where
  "progress options response k elapsed =
     (if onPollingProgress options
      then Some \<lparr> progress_jobId = jobId response,
                  progress_status = status response,
                  attempt = k,
                  maxAttempts = the_maxPollingAttempts options,
                  elapsedMs = elapsed,
                  nextRetryMs =
                    (if status response = ''completed'' \<or> status response = ''failed''
                     then None else Some (retryAfterMs options response)) \<rparr>
      else None)"

text \<open>How one iteration of the loop ends: the run is settled, or the loop goes on with
  the job id of the response.\<close>

datatype 'a step = Settled "js_error + 'a" | Continue string

text \<open>
  The body of the \<^verbatim>\<open>while\<close> loop, entered with the counter at \<open>n\<close> and the last job id
  \<open>jid\<close>: the cancellation check, \<^verbatim>\<open>attempt++\<close>, the elapsed-time check, the call, the
  progress callback, the three branches on the status.
\<close>

definition iteration ::
  "(nat \<Rightarrow> rat \<Rightarrow> rat) \<Rightarrow> (nat \<Rightarrow> rat) \<Rightarrow> (nat \<Rightarrow> 'a reply) \<Rightarrow> AsyncClientOptions \<Rightarrow> nat
     \<Rightarrow> string \<Rightarrow> 'a round list \<times> 'a step" where
  "iteration timer dateNow apiCall options n jid =
     (if signal_aborted options (Suc n) then ([], Settled (Inl AbortError))
      else
        let k = Suc n;
            elapsed = dateNow k - dateNow 0
        in
          if the_timeoutMs options \<le> elapsed
          then ([], Settled (Inl (PollingTimeoutError (str_or jid ''unknown'')
                                    (the_timeoutMs options) k)))
          else
            (case apiCall k of
               Rejects name m \<Rightarrow>
                 ([\<lparr> reply = Rejects name m, notified = None, waitMs = None,
                     waitEnd = None \<rparr>],
                  Settled (Inl (TransportError name m)))
             | Resolves response \<Rightarrow>
                 let rd = \<lparr> reply = Resolves response,
                            notified = progress options response k elapsed,
                            waitMs = None, waitEnd = None \<rparr>
                 in
                   if status response = ''completed'' then
                     (case result response of
                        Some v \<Rightarrow> ([rd], Settled (Inr v))
                      | None \<Rightarrow>
                          ([rd], Settled (Inl (Error (''Job '' @ jobId response
                                                  @ '' completed but result is undefined'')))))
                   else if status response = ''failed'' then
                     ([rd], Settled (Inl (JobFailedError (jobId response)
                                            (opt_str_or (error response) ''Unknown error''))))
                   else
                     let ms = retryAfterMs options response;
                         w = sleepWithAbort (timer k) ms (signal_at options (AtWait k));
                         rd' = rd \<lparr> waitMs := Some ms, waitEnd := Some w \<rparr>
                     in (case snd w of
                           Inl e \<Rightarrow> ([rd'], Settled (Inl e))
                         | Inr u \<Rightarrow> ([rd'], Continue (jobId response)))))"

text \<open>The \<^verbatim>\<open>while (attempt < maxPollingAttempts)\<close> loop and the \<^verbatim>\<open>throw\<close> after it.\<close>

function poll_loop ::
  "(nat \<Rightarrow> rat \<Rightarrow> rat) \<Rightarrow> (nat \<Rightarrow> rat) \<Rightarrow> (nat \<Rightarrow> 'a reply) \<Rightarrow> AsyncClientOptions \<Rightarrow> nat
     \<Rightarrow> string \<Rightarrow> 'a run" where
  "poll_loop timer dateNow apiCall options n jid =
     (if of_nat n < the_maxPollingAttempts options then
        (case iteration timer dateNow apiCall options n jid of
           (rounds, Settled out) \<Rightarrow> (rounds, out)
         | (rounds, Continue jid') \<Rightarrow>
             (case poll_loop timer dateNow apiCall options (Suc n) jid' of
                (rounds', out) \<Rightarrow> (rounds @ rounds', out)))
      else ([], Inl (PollingTimeoutError (str_or jid ''unknown'') (the_timeoutMs options) n)))"
  by pat_completeness auto
termination
proof (relation "measure (\<lambda>(timer, dateNow, apiCall, options, n, jid).
                   nat \<lceil>the_maxPollingAttempts options\<rceil> - n)")
  show "wf (measure (\<lambda>(timer :: nat \<Rightarrow> rat \<Rightarrow> rat, dateNow :: nat \<Rightarrow> rat,
                         apiCall :: nat \<Rightarrow> 'a reply, options, n, jid :: string).
                   nat \<lceil>the_maxPollingAttempts options\<rceil> - n))"
    by simp
next
  fix timer :: "nat \<Rightarrow> rat \<Rightarrow> rat" and dateNow :: "nat \<Rightarrow> rat" and apiCall :: "nat \<Rightarrow> 'a reply"
    and options n and jid :: string
  assume "of_nat n < the_maxPollingAttempts options"
  then have "int n < \<lceil>the_maxPollingAttempts options\<rceil>"
    by (simp add: less_ceiling_iff)
  then show "\<And>x xa y x2. ((timer, dateNow, apiCall, options, Suc n, x2),
                         timer, dateNow, apiCall, options, n, jid)
          \<in> measure (\<lambda>(timer, dateNow, apiCall, options, n, jid).
                   nat \<lceil>the_maxPollingAttempts options\<rceil> - n)"
    by simp
qed

declare poll_loop.simps [simp del]

text \<open>\<^verbatim>\<open>pollUntilComplete(apiCall, options)\<close>: \<^verbatim>\<open>attempt = 0\<close>, \<^verbatim>\<open>jobId = ''\<close>.\<close>

definition pollUntilComplete ::
  "(nat \<Rightarrow> rat \<Rightarrow> rat) \<Rightarrow> (nat \<Rightarrow> rat) \<Rightarrow> (nat \<Rightarrow> 'a reply) \<Rightarrow> AsyncClientOptions
     \<Rightarrow> 'a run" where
  "pollUntilComplete timer dateNow apiCall options = poll_loop timer dateNow apiCall options 0 []"

section \<open>Concrete runs\<close>

text \<open>The inputs at which the theorems below are instantiated. Results are natural
  numbers; \<open>clock_1s\<close> lets one second pass between two readings of the clock.\<close>

definition clock_1s :: "nat \<Rightarrow> rat" where
  "clock_1s k = of_nat k * 1000"

text \<open>A timer that fires after the delay it is given, cut to whole milliseconds, and
  after 1 ms when the delay is below 1 ms or above \<open>2^31 - 1\<close> ms (as Node.js
  documents its \<^verbatim>\<open>setTimeout\<close>).\<close>

definition timer_node :: "nat \<Rightarrow> rat \<Rightarrow> rat" where
  "timer_node k ms = (if ms < 1 \<or> 2147483647 < ms then 1 else of_int \<lfloor>ms\<rfloor>)"

definition options_default :: AsyncClientOptions where
  "options_default =
     \<lparr> timeoutMs = None, defaultRetryIntervalMs = None, maxPollingAttempts = None,
       onPollingProgress = False, signal = None \<rparr>"

text \<open>A job that is pending once (the server asks for one second) and then completed.\<close>

definition envelope_pending :: "nat AsyncEnvelope" where
  "envelope_pending =
     \<lparr> status = ''pending'', jobId = ''job-1'', retryAfter = Some 1, error = None,
       result = None \<rparr>"

definition envelope_completed :: "nat AsyncEnvelope" where
  "envelope_completed =
     \<lparr> status = ''completed'', jobId = ''job-1'', retryAfter = None, error = None,
       result = Some 42 \<rparr>"

definition api_A :: "nat \<Rightarrow> nat reply" where
  "api_A k = (if k = 1 then Resolves envelope_pending else Resolves envelope_completed)"

definition options_A :: AsyncClientOptions where
  "options_A =
     \<lparr> timeoutMs = Some 60000, defaultRetryIntervalMs = None, maxPollingAttempts = Some 5,
       onPollingProgress = False, signal = None \<rparr>"

text \<open>A job reported completed with no result.\<close>

definition envelope_no_result :: "nat AsyncEnvelope" where
  "envelope_no_result =
     \<lparr> status = ''completed'', jobId = ''job-1'', retryAfter = None, error = None,
       result = None \<rparr>"

definition api_D :: "nat \<Rightarrow> nat reply" where
  "api_D k = Resolves envelope_no_result"

text \<open>A failed job, with a message and with an empty message.\<close>

definition envelope_failed :: "nat AsyncEnvelope" where
  "envelope_failed =
     \<lparr> status = ''failed'', jobId = ''job-1'', retryAfter = None, error = Some ''bad archive'',
       result = None \<rparr>"

definition api_C :: "nat \<Rightarrow> nat reply" where
  "api_C k = Resolves envelope_failed"

definition envelope_failed_blank :: "nat AsyncEnvelope" where
  "envelope_failed_blank =
     \<lparr> status = ''failed'', jobId = ''job-1'', retryAfter = None, error = Some [],
       result = None \<rparr>"

definition api_failed_blank :: "nat \<Rightarrow> nat reply" where
  "api_failed_blank k = Resolves envelope_failed_blank"

text \<open>A handle that was triggered before the poller started, and an empty budget.\<close>

definition already_aborted :: "moment \<Rightarrow> AbortSignal" where
  "already_aborted m = \<lparr> aborted = True, abortEventAfter = None \<rparr>"

definition options_no_budget :: AsyncClientOptions where
  "options_no_budget =
     \<lparr> timeoutMs = None, defaultRetryIntervalMs = None, maxPollingAttempts = Some (- 1),
       onPollingProgress = False, signal = Some already_aborted \<rparr>"

text \<open>A job that stays in \<^verbatim>\<open>processing\<close>, with budgets of three attempts and of 1500 ms.\<close>

definition envelope_processing :: "nat AsyncEnvelope" where
  "envelope_processing =
     \<lparr> status = ''processing'', jobId = ''job-1'', retryAfter = None, error = None,
       result = None \<rparr>"

definition api_B :: "nat \<Rightarrow> nat reply" where
  "api_B k = Resolves envelope_processing"

definition options_B :: AsyncClientOptions where
  "options_B =
     \<lparr> timeoutMs = None, defaultRetryIntervalMs = None, maxPollingAttempts = Some 3,
       onPollingProgress = False, signal = None \<rparr>"

definition options_short_timeout :: AsyncClientOptions where
  "options_short_timeout =
     \<lparr> timeoutMs = Some 1500, defaultRetryIntervalMs = None, maxPollingAttempts = None,
       onPollingProgress = False, signal = None \<rparr>"

text \<open>Handles triggered 1200 ms into the first wait, and 1200 ms into the second wait
  (11200 ms after the first wait began).\<close>

definition abort_in_first_wait :: "moment \<Rightarrow> AbortSignal" where
  "abort_in_first_wait m = \<lparr> aborted = False, abortEventAfter = Some 1200 \<rparr>"

definition options_one_attempt_cancelled :: AsyncClientOptions where
  "options_one_attempt_cancelled =
     \<lparr> timeoutMs = None, defaultRetryIntervalMs = None, maxPollingAttempts = Some 1,
       onPollingProgress = False, signal = Some abort_in_first_wait \<rparr>"

definition abort_in_second_wait :: "moment \<Rightarrow> AbortSignal" where
  "abort_in_second_wait m =
     \<lparr> aborted = False,
       abortEventAfter = Some (if m = AtCheck 1 \<or> m = AtWait 1 then 11200 else 1200) \<rparr>"

definition options_cancelled_later :: AsyncClientOptions where
  "options_cancelled_later =
     \<lparr> timeoutMs = None, defaultRetryIntervalMs = None, maxPollingAttempts = None,
       onPollingProgress = False, signal = Some abort_in_second_wait \<rparr>"

text \<open>A handle triggered before the poller starts, with the default budgets, with a
  timeout of 0 ms, and with no attempt allowed.\<close>

definition options_cancelled :: AsyncClientOptions where
  "options_cancelled =
     \<lparr> timeoutMs = None, defaultRetryIntervalMs = None, maxPollingAttempts = None,
       onPollingProgress = False, signal = Some already_aborted \<rparr>"

definition options_timeout_cancelled :: AsyncClientOptions where
  "options_timeout_cancelled =
     \<lparr> timeoutMs = Some 0, defaultRetryIntervalMs = None, maxPollingAttempts = None,
       onPollingProgress = False, signal = Some already_aborted \<rparr>"

definition options_cancelled_no_budget :: AsyncClientOptions where
  "options_cancelled_no_budget =
     \<lparr> timeoutMs = None, defaultRetryIntervalMs = None, maxPollingAttempts = Some 0,
       onPollingProgress = False, signal = Some already_aborted \<rparr>"




definition abort_during_first_call :: "moment \<Rightarrow> AbortSignal" where
  "abort_during_first_call m = \<lparr> aborted = (m \<noteq> AtCheck 1), abortEventAfter = None \<rparr>"

definition options_cancelled_in_call :: AsyncClientOptions where
  "options_cancelled_in_call =
     \<lparr> timeoutMs = None, defaultRetryIntervalMs = None, maxPollingAttempts = None,
       onPollingProgress = False, signal = Some abort_during_first_call \<rparr>"







text \<open>A random source that draws \<open>0/16, 1/16, \<dots>, 15/16, 0/16, \<dots>\<close>\<close>

definition random_sample :: "nat \<Rightarrow> rat" where
  "random_sample i = of_nat (i mod 16) / 16"

section \<open>Double precision\<close>

text \<open>\<open>binade\<close> is the binary exponent, \<open>round_double\<close> is within half a unit in the last
  place of its argument, and whole numbers up to \<open>2^53\<close> are doubles.\<close>

lemma round_half_even_of_int: "round_half_even (of_int k) = k"
  by (simp add: round_half_even_def)

lemma round_half_even_error: "\<bar>of_int (round_half_even m) - m\<bar> \<le> 1 / 2"
proof -
  define f where "f = \<lfloor>m\<rfloor>"
  define r where "r = m - of_int f"
  have r: "0 \<le> r" "r < 1"
    unfolding r_def f_def by linarith+
  have m: "m = of_int f + r"
    by (simp add: r_def)
  have "round_half_even m = f \<and> r \<le> 1 / 2 \<or> round_half_even m = f + 1 \<and> 1 / 2 \<le> r"
    unfolding round_half_even_def Let_def f_def [symmetric] r_def [symmetric] by auto
  then show ?thesis
    using r unfolding m by auto
qed

lemma bitlen_pos: "0 < x \<Longrightarrow> 1 \<le> bitlen x"
  by (simp add: bitlen_ge_iff_power)

lemma bitlen_rat_bounds:
  assumes "0 < x"
  shows "(2 :: rat) powi (bitlen x - 1) \<le> of_int x \<and> (of_int x :: rat) < 2 powi bitlen x"
proof -
  from bitlen_bounds [OF assms] have
    "(of_int ((2 :: int) ^ nat (bitlen x - 1)) :: rat) \<le> of_int x"
    "(of_int x :: rat) < of_int ((2 :: int) ^ nat (bitlen x))"
    by (simp_all only: of_int_le_iff of_int_less_iff)
  then show ?thesis
    using bitlen_pos [OF assms] by (simp add: power_int_def)
qed

lemma binade_bounds:
  assumes "q \<noteq> 0"
  shows "2 powi binade q \<le> \<bar>q\<bar> \<and> \<bar>q\<bar> < 2 powi (binade q + 1)"
proof -
  obtain a b where ab: "quotient_of \<bar>q\<bar> = (a, b)" by force
  then have b: "0 < b" and q: "\<bar>q\<bar> = of_int a / of_int b"
    by (simp_all add: quotient_of_denom_pos quotient_of_div)
  have "0 < \<bar>q\<bar>" using assms by simp
  with q b have a: "0 < a"
    by (simp add: zero_less_divide_iff)
  define e where "e = bitlen a - bitlen b"
  note ba = bitlen_rat_bounds [OF a] and bb = bitlen_rat_bounds [OF b]
  have "of_int a < (2 :: rat) powi bitlen a" using ba by simp
  also have "\<dots> = 2 powi (e + 1) * 2 powi (bitlen b - 1)"
    by (simp add: e_def flip: power_int_add)
  also have "\<dots> \<le> 2 powi (e + 1) * of_int b"
    using bb by (intro mult_left_mono) simp_all
  finally have up: "\<bar>q\<bar> < 2 powi (e + 1)"
    using b by (simp add: q pos_divide_less_eq)
  have "(2 :: rat) powi (e - 1) * of_int b < 2 powi (e - 1) * 2 powi bitlen b"
    using bb by (intro mult_strict_left_mono) simp_all
  also have "\<dots> = 2 powi (bitlen a - 1)"
    by (simp add: e_def flip: power_int_add)
  also have "\<dots> \<le> of_int a" using ba by simp
  finally have lo: "2 powi (e - 1) \<le> \<bar>q\<bar>"
    using b by (simp add: q pos_le_divide_eq)
  show ?thesis
    using up lo ab by (auto simp: binade_def Let_def e_def)
qed

lemma round_double_error:
  "\<bar>round_double q - q\<bar> \<le> 2 powi max (binade q - 52) (- 1074) / 2"
proof (cases "q = 0")
  case True
  then show ?thesis by (simp add: round_double_def)
next
  case False
  define u :: rat where "u = 2 powi max (binade q - 52) (- 1074)"
  have u: "0 < u" by (simp add: u_def)
  have "round_double q - q = (of_int (round_half_even (q / u)) - q / u) * u"
    using False u by (simp add: round_double_def Let_def u_def algebra_simps)
  then have "\<bar>round_double q - q\<bar> = \<bar>of_int (round_half_even (q / u)) - q / u\<bar> * u"
    using u by (simp add: abs_mult)
  also have "\<dots> \<le> 1 / 2 * u"
    using u round_half_even_error [of "q / u"] by (intro mult_right_mono) simp_all
  finally show ?thesis by (simp add: u_def)
qed

lemma binade_of_int:
  assumes "n \<noteq> 0"
  shows "binade (of_int n) = bitlen \<bar>n\<bar> - 1"
proof -
  have pos: "0 < \<bar>n\<bar>" using assms by simp
  have "2 powi (bitlen \<bar>n\<bar> - 1) \<le> \<bar>of_int n :: rat\<bar>"
    using bitlen_rat_bounds [OF pos] by simp
  moreover have "quotient_of \<bar>of_int n :: rat\<bar> = (\<bar>n\<bar>, 1)"
    by (simp flip: of_int_abs)
  moreover have "bitlen 1 = 1"
    by (simp add: bitlen_alt_def)
  ultimately show ?thesis
    by (simp add: binade_def Let_def)
qed

lemma round_double_of_int:
  assumes "\<bar>n\<bar> \<le> 2 ^ 53"
  shows "round_double (of_int n) = of_int n"
proof (cases "n = 0")
  case True
  then show ?thesis by (simp add: round_double_def)
next
  case False
  then have pos: "0 < \<bar>n\<bar>" by simp
  define e where "e = bitlen \<bar>n\<bar> - 1"
  have e0: "0 \<le> e"
    using bitlen_pos [OF pos] by (simp add: e_def)
  have "bitlen \<bar>n\<bar> \<le> 54"
    using assms by (simp add: bitlen_le_iff_power)
  then have e53: "e \<le> 53" by (simp add: e_def)
  define p where "p = max (binade (of_int n :: rat) - 52) (- 1074)"
  have p: "p = e - 52"
    using e0 False by (simp add: p_def binade_of_int e_def)
  have "\<exists>k. (of_int n :: rat) / 2 powi p = of_int k"
  proof (cases "e \<le> 52")
    case True
    then have "(2 :: rat) powi p = 1 / 2 ^ nat (52 - e)"
      using p by (auto simp: power_int_def field_simps)
    then have "(of_int n :: rat) / 2 powi p = of_int (n * 2 ^ nat (52 - e))"
      by simp
    then show ?thesis ..
  next
    case False
    with e53 have e: "e = 53" by simp
    then have "(2 :: int) ^ 53 \<le> \<bar>n\<bar>"
      using bitlen_bounds [OF pos] by (simp add: e_def)
    with assms have n: "\<bar>n\<bar> = 2 ^ 53" by simp
    then have "n = 2 ^ 53 \<or> n = - (2 ^ 53)" by linarith
    moreover have "(2 :: rat) powi p = 2"
      using p e by simp
    ultimately have "(of_int n :: rat) / 2 powi p = of_int (n div 2)"
      by auto
    then show ?thesis ..
  qed
  then obtain k where k: "(of_int n :: rat) / 2 powi p = of_int k" ..
  have "round_double (of_int n) = of_int (round_half_even (of_int n / 2 powi p)) * 2 powi p"
    using False by (simp add: round_double_def Let_def p_def)
  also have "\<dots> = of_int k * 2 powi p"
    by (simp add: k round_half_even_of_int)
  also have "\<dots> = of_int n / 2 powi p * 2 powi p"
    by (simp add: k)
  also have "\<dots> = of_int n"
    by simp
  finally show ?thesis .
qed

lemma round_double_numeral [simp]:
  "numeral k \<le> (2 :: int) ^ 53 \<Longrightarrow> round_double (numeral k) = numeral k"
  using round_double_of_int [of "numeral k"] by simp

lemma round_double_neg_numeral [simp]:
  "numeral k \<le> (2 :: int) ^ 53 \<Longrightarrow> round_double (- numeral k) = - numeral k"
  using round_double_of_int [of "- numeral k"] by simp


section \<open>The loop, one iteration at a time\<close>

lemmas run_simps =
  pollUntilComplete_def poll_loop.simps iteration_def Let_def signal_aborted_def signal_at_def
  the_timeoutMs_def the_defaultRetryIntervalMs_def the_maxPollingAttempts_def
  retryAfterMs_def opt_num_or_def opt_str_or_def str_or_def progress_def
  sleepWithAbort_def js_mul_def js_div_def outcome_def calls_def timer_node_def

lemma iteration_rounds:
  "iteration timer dateNow apiCall options n jid = (rs, st) \<Longrightarrow>
     rs = [] \<or> (\<exists>rd. rs = [rd] \<and> reply rd = apiCall (Suc n))"
  by (auto simp: iteration_def Let_def split: if_splits reply.splits option.splits sum.splits)

lemma iteration_Continue:
  "iteration timer dateNow apiCall options n jid = (rs, Continue j') \<Longrightarrow> \<exists>rd. rs = [rd]"
  by (auto simp: iteration_def Let_def split: if_splits reply.splits option.splits sum.splits)

lemma iteration_completed:
  "iteration timer dateNow apiCall options n jid = ([rd], st) \<Longrightarrow> reply rd = Resolves e \<Longrightarrow>
   status e = ''completed'' \<Longrightarrow>
     st = Settled (case result e of
                     Some v \<Rightarrow> Inr v
                   | None \<Rightarrow> Inl (Error (''Job '' @ jobId e @ '' completed but result is undefined'')))"
  by (auto simp: iteration_def Let_def split: if_splits reply.splits option.splits sum.splits)

lemma iteration_failed:
  "iteration timer dateNow apiCall options n jid = ([rd], st) \<Longrightarrow> reply rd = Resolves e \<Longrightarrow>
   status e = ''failed'' \<Longrightarrow>
     st = Settled (Inl (JobFailedError (jobId e) (opt_str_or (error e) ''Unknown error'')))"
  by (auto simp: iteration_def Let_def split: if_splits reply.splits option.splits sum.splits)



lemma iteration_goes_on:
  "\<not> signal_aborted options (Suc n) \<Longrightarrow>
   dateNow (Suc n) - dateNow 0 < the_timeoutMs options \<Longrightarrow>
   apiCall (Suc n) = Resolves e \<Longrightarrow> status e \<noteq> ''completed'' \<Longrightarrow> status e \<noteq> ''failed'' \<Longrightarrow>
   snd (sleepWithAbort (timer (Suc n)) (retryAfterMs options e) (signal_at options (AtWait (Suc n)))) = Inr () \<Longrightarrow>
     \<exists>rd. iteration timer dateNow apiCall options n jid = ([rd], Continue (jobId e))"
  by (auto simp: iteration_def Let_def split: if_splits reply.splits option.splits sum.splits)

lemma poll_loop_exhausted:
  "\<not> of_nat n < the_maxPollingAttempts options \<Longrightarrow>
     poll_loop timer dateNow apiCall options n jid =
       ([], Inl (PollingTimeoutError (str_or jid ''unknown'') (the_timeoutMs options) n))"
  by (subst poll_loop.simps) simp

lemma poll_loop_settled:
  "of_nat n < the_maxPollingAttempts options \<Longrightarrow>
   iteration timer dateNow apiCall options n jid = (rs, Settled out) \<Longrightarrow>
     poll_loop timer dateNow apiCall options n jid = (rs, out)"
  by (subst poll_loop.simps) simp

lemma poll_loop_continue:
  "of_nat n < the_maxPollingAttempts options \<Longrightarrow>
   iteration timer dateNow apiCall options n jid = (rs, Continue jid') \<Longrightarrow>
     poll_loop timer dateNow apiCall options n jid =
       (rs @ fst (poll_loop timer dateNow apiCall options (Suc n) jid'),
        snd (poll_loop timer dateNow apiCall options (Suc n) jid'))"
  by (subst poll_loop.simps) (simp add: case_prod_beta)

text \<open>
  Every round of a run is the round of one iteration of the loop: the round at position
  \<open>length pre\<close> belongs to attempt \<open>Suc (n + length pre)\<close>, which was within the budget;
  if that iteration settled the run, the round is the last one and the outcome is the
  iteration's, and if it went on, the rest of the run is the run of the loop from the next
  attempt.
\<close>

lemma poll_loop_round:
  assumes "fst (poll_loop timer dateNow apiCall options n jid) = pre @ rd # post"
  shows "of_nat (n + length pre) < the_maxPollingAttempts options \<and>
         (\<exists>j st. iteration timer dateNow apiCall options (n + length pre) j = ([rd], st) \<and>
            (case st of
               Settled out \<Rightarrow> post = [] \<and> snd (poll_loop timer dateNow apiCall options n jid) = out
             | Continue j' \<Rightarrow>
                 poll_loop timer dateNow apiCall options (Suc (n + length pre)) j' =
                   (post, snd (poll_loop timer dateNow apiCall options n jid))))"
  using assms
proof (induction timer dateNow apiCall options n jid arbitrary: pre rule: poll_loop.induct)
  case (1 timer dateNow apiCall options n jid)
  show ?case
  proof (cases "of_nat n < the_maxPollingAttempts options")
    case False
    with "1.prems" show ?thesis by (simp add: poll_loop_exhausted)
  next
    case budget: True
    obtain rs st where it: "iteration timer dateNow apiCall options n jid = (rs, st)"
      by force
    show ?thesis
    proof (cases st)
      case (Settled out)
      with budget it have run: "poll_loop timer dateNow apiCall options n jid = (rs, out)"
        by (simp add: poll_loop_settled)
      with "1.prems" have "rs = pre @ rd # post" by simp
      with iteration_rounds [OF it] have "pre = []" "post = []" "rs = [rd]"
        by (auto simp: append_eq_Cons_conv)
      with budget it Settled run show ?thesis
        by (intro conjI exI [of _ jid] exI [of _ "Settled out"]) simp_all
    next
      case (Continue j')
      with it obtain rd0 where rs: "rs = [rd0]"
        using iteration_Continue by blast
      from budget it Continue have run:
        "poll_loop timer dateNow apiCall options n jid =
           (rs @ fst (poll_loop timer dateNow apiCall options (Suc n) j'),
            snd (poll_loop timer dateNow apiCall options (Suc n) j'))"
        by (simp add: poll_loop_continue)
      show ?thesis
      proof (cases pre)
        case Nil
        with "1.prems" run rs have "rd = rd0"
          "post = fst (poll_loop timer dateNow apiCall options (Suc n) j')" by simp_all
        with budget it Continue rs run Nil show ?thesis
          by (intro conjI exI [of _ jid] exI [of _ "Continue j'"]) simp_all
      next
        case (Cons x pre')
        with "1.prems" run rs have tail:
          "fst (poll_loop timer dateNow apiCall options (Suc n) j') = pre' @ rd # post" by simp
        have idx: "n + length pre = Suc n + length pre'"
          using Cons by simp
        have out: "snd (poll_loop timer dateNow apiCall options n jid) =
                   snd (poll_loop timer dateNow apiCall options (Suc n) j')"
          using run by simp
        show ?thesis
          unfolding idx out by (rule "1.IH" [OF budget it [symmetric] Continue tail])
      qed
    qed
  qed
qed

lemma run_round:
  assumes "fst (pollUntilComplete timer dateNow apiCall options) = pre @ rd # post"
  shows "\<exists>j st.
           of_nat (length pre) < the_maxPollingAttempts options \<and>
           iteration timer dateNow apiCall options (length pre) j = ([rd], st) \<and>
           (\<forall>out. st = Settled out \<longrightarrow>
              post = [] \<and> outcome (pollUntilComplete timer dateNow apiCall options) = out) \<and>
           (\<forall>j'. st = Continue j' \<longrightarrow>
              poll_loop timer dateNow apiCall options (Suc (length pre)) j' =
                (post, outcome (pollUntilComplete timer dateNow apiCall options)))"
proof -
  have "fst (poll_loop timer dateNow apiCall options 0 []) = pre @ rd # post"
    using assms by (simp add: pollUntilComplete_def)
  from poll_loop_round [OF this] obtain j st where
    budget: "of_nat (0 + length pre) < the_maxPollingAttempts options" and
    it: "iteration timer dateNow apiCall options (0 + length pre) j = ([rd], st)" and
    rest: "case st of
       Settled out \<Rightarrow> post = [] \<and> snd (poll_loop timer dateNow apiCall options 0 []) = out
     | Continue j' \<Rightarrow>
         poll_loop timer dateNow apiCall options (Suc (0 + length pre)) j' =
           (post, snd (poll_loop timer dateNow apiCall options 0 []))"
    by blast
  show ?thesis
    using budget it rest
    by (intro exI [of _ j] exI [of _ st]) (auto simp: outcome_def pollUntilComplete_def)
qed

text \<open>
  As long as each attempt passes the cancellation check and the elapsed-time check, is
  answered by an envelope that is neither \<^verbatim>\<open>completed\<close> nor \<^verbatim>\<open>failed\<close>, and waits
  to the end, the loop reaches the next attempt.
\<close>

lemma poll_loop_keeps_polling:
  assumes "of_nat (m + i) \<le> the_maxPollingAttempts options"
    and "\<And>k. m < k \<Longrightarrow> k \<le> m + i \<Longrightarrow> \<not> signal_aborted options k"
    and "\<And>k. m < k \<Longrightarrow> k \<le> m + i \<Longrightarrow> dateNow k - dateNow 0 < the_timeoutMs options"
    and "\<And>k. m < k \<Longrightarrow> k \<le> m + i \<Longrightarrow>
           \<exists>e. apiCall k = Resolves e \<and> status e \<noteq> ''completed'' \<and> status e \<noteq> ''failed'' \<and>
               snd (sleepWithAbort (timer k) (retryAfterMs options e) (signal_at options (AtWait k))) = Inr ()"
  shows "\<exists>pre j. length pre = i \<and>
           poll_loop timer dateNow apiCall options m jid =
             (pre @ fst (poll_loop timer dateNow apiCall options (m + i) j),
              snd (poll_loop timer dateNow apiCall options (m + i) j))"
  using assms
proof (induction i arbitrary: m jid)
  case 0
  show ?case by (intro exI [of _ "[]"] exI [of _ jid]) simp
next
  case (Suc i)
  have budget: "of_nat m < the_maxPollingAttempts options"
    using Suc.prems(1) by (simp add: algebra_simps)
  have check: "\<not> signal_aborted options (Suc m)"
    using Suc.prems(2) by simp
  have intime: "dateNow (Suc m) - dateNow 0 < the_timeoutMs options"
    using Suc.prems(3) by simp
  from Suc.prems(4) [of "Suc m"] obtain e where e:
    "apiCall (Suc m) = Resolves e" "status e \<noteq> ''completed''" "status e \<noteq> ''failed''"
    "snd (sleepWithAbort (timer (Suc m)) (retryAfterMs options e) (signal_at options (AtWait (Suc m)))) = Inr ()"
    by auto
  from iteration_goes_on [where timer = timer and dateNow = dateNow and apiCall = apiCall and n = m,
      OF check intime e]
  obtain rd where it: "iteration timer dateNow apiCall options m jid = ([rd], Continue (jobId e))"
    by auto
  have "\<exists>pre j. length pre = i \<and>
           poll_loop timer dateNow apiCall options (Suc m) (jobId e) =
             (pre @ fst (poll_loop timer dateNow apiCall options (Suc m + i) j),
              snd (poll_loop timer dateNow apiCall options (Suc m + i) j))"
  proof (rule Suc.IH)
    show "of_nat (Suc m + i) \<le> the_maxPollingAttempts options"
      using Suc.prems(1) by simp
  qed (use Suc.prems(2,3,4) in simp_all)
  then obtain pre j where pre: "length pre = i"
    "poll_loop timer dateNow apiCall options (Suc m) (jobId e) =
       (pre @ fst (poll_loop timer dateNow apiCall options (Suc m + i) j),
        snd (poll_loop timer dateNow apiCall options (Suc m + i) j))"
    by blast
  show ?case
    using poll_loop_continue [OF budget it] pre
    by (intro exI [of _ "rd # pre"] exI [of _ j]) simp
qed

lemma iteration_aborted:
  "signal_aborted options (Suc n) \<Longrightarrow>
     iteration timer dateNow apiCall options n jid = ([], Settled (Inl AbortError))"
  by (simp add: iteration_def)

lemma iteration_timeout:
  "\<not> signal_aborted options (Suc n) \<Longrightarrow>
   the_timeoutMs options \<le> dateNow (Suc n) - dateNow 0 \<Longrightarrow>
     iteration timer dateNow apiCall options n jid =
       ([], Settled (Inl (PollingTimeoutError (str_or jid ''unknown'') (the_timeoutMs options)
                            (Suc n))))"
  by (simp add: iteration_def Let_def)

lemma iteration_wait_rejected:
  "\<not> signal_aborted options (Suc n) \<Longrightarrow>
   dateNow (Suc n) - dateNow 0 < the_timeoutMs options \<Longrightarrow>
   apiCall (Suc n) = Resolves e \<Longrightarrow> status e \<noteq> ''completed'' \<Longrightarrow> status e \<noteq> ''failed'' \<Longrightarrow>
   sleepWithAbort (timer (Suc n)) (retryAfterMs options e) (signal_at options (AtWait (Suc n))) = (t, Inl err) \<Longrightarrow>
     \<exists>rd. iteration timer dateNow apiCall options n jid = ([rd], Settled (Inl err)) \<and>
          waitEnd rd = Some (t, Inl err)"
  by (auto simp: iteration_def Let_def split: if_splits reply.splits option.splits sum.splits)

lemma sleepWithAbort_aborted:
  "aborted s \<Longrightarrow> sleepWithAbort fires ms (Some s) = (0, Inl AbortError)"
  by (simp add: sleepWithAbort_def)


lemma sleepWithAbort_cancelled:
  "\<not> aborted s \<Longrightarrow> abortEventAfter s = Some d \<Longrightarrow> d < fires ms \<Longrightarrow>
     sleepWithAbort fires ms (Some s) = (d, Inl AbortError)"
  by (simp add: sleepWithAbort_def)

lemma run_keeps_polling:
  assumes "of_nat n \<le> the_maxPollingAttempts options"
    and "\<And>k. 0 < k \<Longrightarrow> k \<le> n \<Longrightarrow> \<not> signal_aborted options k"
    and "\<And>k. 0 < k \<Longrightarrow> k \<le> n \<Longrightarrow> dateNow k - dateNow 0 < the_timeoutMs options"
    and "\<And>k. 0 < k \<Longrightarrow> k \<le> n \<Longrightarrow>
           \<exists>e. apiCall k = Resolves e \<and> status e \<noteq> ''completed'' \<and> status e \<noteq> ''failed'' \<and>
               snd (sleepWithAbort (timer k) (retryAfterMs options e) (signal_at options (AtWait k))) = Inr ()"
  shows "\<exists>pre j. length pre = n \<and>
           pollUntilComplete timer dateNow apiCall options =
             (pre @ fst (poll_loop timer dateNow apiCall options n j),
              snd (poll_loop timer dateNow apiCall options n j))"
  using poll_loop_keeps_polling [where m = 0 and i = n and options = options and timer = timer
      and dateNow = dateNow and apiCall = apiCall and jid = "[]"] assms
  by (simp add: pollUntilComplete_def)

section \<open>The fallback key generator, one character at a time\<close>

lemma toInt32_random:
  assumes "0 \<le> x" and "x < 1"
  shows "toInt32 (x * 16) = \<lfloor>x * 16\<rfloor> \<and> 0 \<le> \<lfloor>x * 16\<rfloor> \<and> \<lfloor>x * 16\<rfloor> < 16"
proof -
  have lo: "0 \<le> \<lfloor>x * 16\<rfloor>" using assms(1) by simp
  have hi: "\<lfloor>x * 16\<rfloor> < 16" using assms(2) by (simp add: floor_less_iff)
  have "\<lfloor>x * 16\<rfloor> mod 2 ^ 32 = \<lfloor>x * 16\<rfloor>"
    using lo hi by simp
  then show ?thesis
    using lo hi assms(1) by (simp add: toInt32_def Let_def)
qed

lemma hex_digits_small: "n < 16 \<Longrightarrow> hex_digits n = [hex_digit n]"
  by (simp add: hex_digits.simps)

lemma toString16_small: "0 \<le> v \<Longrightarrow> v < 16 \<Longrightarrow> toString16 v = [hex_digit (nat v)]"
  by (simp add: toString16_def hex_digits_small)

lemma variant_bits: "(r AND 3) OR 8 \<in> {8, 9, 10, 11 :: int}"
proof -
  have "0 \<le> r AND 3" by simp
  moreover have "r AND 3 \<le> 3" by (rule AND_upper2) simp
  ultimately have "r AND 3 = 0 \<or> r AND 3 = 1 \<or> r AND 3 = 2 \<or> r AND 3 = 3"
    by arith
  then show ?thesis
    by (elim disjE) simp_all
qed

lemma replacer_x:
  assumes "0 \<le> x" and "x < 1"
  shows "replacer x CHR ''x'' = [hex_digit (nat \<lfloor>x * 16\<rfloor>)]"
  using toInt32_random [OF assms] by (simp add: replacer_def Let_def toString16_small)

lemma replacer_y: "\<exists>c \<in> {CHR ''8'', CHR ''9'', CHR ''a'', CHR ''b''}. replacer x CHR ''y'' = [c]"
proof -
  let ?v = "(toInt32 (x * 16) AND 3) OR 8"
  have "?v = 8 \<or> ?v = 9 \<or> ?v = 10 \<or> ?v = 11"
    using variant_bits [of "toInt32 (x * 16)"] by simp
  then show ?thesis
    by (elim disjE) (simp_all add: replacer_def Let_def toString16_def hex_digits.simps hex_digit_def)
qed

section \<open>The claims\<close>

text \<open>
  Claim C1. Wherever in the sequence of calls of a run the submit/check operation returns
  an envelope with status \<^verbatim>\<open>completed\<close> and a present result, \<^verbatim>\<open>pollUntilComplete\<close>
  returns exactly that result, and that call is the last one of the run: no call is
  issued after it.
\<close>

theorem completed_result_is_returned:
  assumes "fst (pollUntilComplete timer dateNow apiCall options) = pre @ rd # post"
    and "reply rd = Resolves e" and "status e = ''completed''" and "result e = Some v"
  shows "outcome (pollUntilComplete timer dateNow apiCall options) = Inr v \<and> post = [] \<and>
         calls (pollUntilComplete timer dateNow apiCall options) = Suc (length pre)"
proof -
  from run_round [OF assms(1)] obtain j st where
    it: "iteration timer dateNow apiCall options (length pre) j = ([rd], st)" and
    st: "\<And>out. st = Settled out \<Longrightarrow>
           post = [] \<and> outcome (pollUntilComplete timer dateNow apiCall options) = out"
    by blast
  from iteration_completed [OF it assms(2,3)] assms(4) have "st = Settled (Inr v)"
    by simp
  from st [OF this] assms(1) show ?thesis
    by (simp add: calls_def)
qed

text \<open>The run of the job that is pending once and then completed with 42: two calls, one
  wait of 1000 ms, and 42 is returned.\<close>

theorem completed_result_is_returned_witness:
  "fst (pollUntilComplete timer_node clock_1s api_A options_A) =
     [\<lparr> reply = Resolves envelope_pending, notified = None, waitMs = Some 1000,
         waitEnd = Some (1000, Inr ()) \<rparr>]
     @ \<lparr> reply = Resolves envelope_completed, notified = None, waitMs = None,
         waitEnd = None \<rparr> # [] \<and>
   result envelope_completed = Some 42 \<and>
   outcome (pollUntilComplete timer_node clock_1s api_A options_A) = Inr 42 \<and>
   calls (pollUntilComplete timer_node clock_1s api_A options_A) = 2"
proof -
  have run: "fst (pollUntilComplete timer_node clock_1s api_A options_A) =
     [\<lparr> reply = Resolves envelope_pending, notified = None, waitMs = Some 1000,
         waitEnd = Some (1000, Inr ()) \<rparr>]
     @ \<lparr> reply = Resolves envelope_completed, notified = None, waitMs = None,
         waitEnd = None \<rparr> # []"
    by (simp add: run_simps clock_1s_def api_A_def options_A_def envelope_pending_def
        envelope_completed_def)
  show ?thesis
    using run completed_result_is_returned [OF run, of envelope_completed 42]
    by (simp add: envelope_completed_def)
qed

text \<open>
  Claim C2, as amended. Wherever in a run the operation returns an envelope with status
  \<^verbatim>\<open>failed\<close>, \<^verbatim>\<open>pollUntilComplete\<close> raises a \<^verbatim>\<open>JobFailedError\<close> with the job id of
  that envelope, and no call follows. The error carries the envelope's message when it is
  present and not empty, and the placeholder \<^verbatim>\<open>'Unknown error'\<close> when the message is
  absent or is the empty string.
\<close>

theorem failed_raises_job_failure:
  assumes "fst (pollUntilComplete timer dateNow apiCall options) = pre @ rd # post"
    and "reply rd = Resolves e" and "status e = ''failed''"
  shows "(\<forall>m. error e = Some m \<and> m \<noteq> [] \<longrightarrow>
            outcome (pollUntilComplete timer dateNow apiCall options) =
              Inl (JobFailedError (jobId e) m)) \<and>
         (error e = None \<or> error e = Some [] \<longrightarrow>
            outcome (pollUntilComplete timer dateNow apiCall options) =
              Inl (JobFailedError (jobId e) ''Unknown error'')) \<and>
         post = []"
proof -
  from run_round [OF assms(1)] obtain j st where
    it: "iteration timer dateNow apiCall options (length pre) j = ([rd], st)" and
    st: "\<And>out. st = Settled out \<Longrightarrow>
           post = [] \<and> outcome (pollUntilComplete timer dateNow apiCall options) = out"
    by blast
  from iteration_failed [OF it assms(2,3)] have
    "st = Settled (Inl (JobFailedError (jobId e) (opt_str_or (error e) ''Unknown error'')))" .
  from st [OF this] show ?thesis
    by (auto simp: opt_str_or_def str_or_def)
qed

text \<open>A single envelope \<^verbatim>\<open>failed\<close> with the message \<^verbatim>\<open>bad archive\<close>: the error carries
  that message.\<close>

theorem failed_raises_job_failure_witness:
  "fst (pollUntilComplete timer_node clock_1s api_C options_default) =
     [] @ \<lparr> reply = Resolves envelope_failed, notified = None, waitMs = None,
             waitEnd = None \<rparr> # [] \<and>
   error envelope_failed = Some ''bad archive'' \<and>
   outcome (pollUntilComplete timer_node clock_1s api_C options_default) =
     Inl (JobFailedError ''job-1'' ''bad archive'')"
proof -
  have run: "fst (pollUntilComplete timer_node clock_1s api_C options_default) =
     [] @ \<lparr> reply = Resolves envelope_failed, notified = None, waitMs = None,
             waitEnd = None \<rparr> # []"
    by (simp add: run_simps clock_1s_def api_C_def options_default_def envelope_failed_def)
  show ?thesis
    using run failed_raises_job_failure [OF run, of envelope_failed]
    by (simp add: envelope_failed_def)
qed

text \<open>Claim C2 as stated fails where the server sends the empty string as the message:
  the message is not omitted, and the error carries the placeholder, not the message.\<close>

theorem blank_failure_message_counterexample:
  "reply (hd (fst (pollUntilComplete timer_node clock_1s api_failed_blank options_default))) =
     Resolves envelope_failed_blank \<and>
   status envelope_failed_blank = ''failed'' \<and>
   error envelope_failed_blank = Some [] \<and>
   outcome (pollUntilComplete timer_node clock_1s api_failed_blank options_default) =
     Inl (JobFailedError ''job-1'' ''Unknown error'') \<and>
   outcome (pollUntilComplete timer_node clock_1s api_failed_blank options_default) \<noteq>
     Inl (JobFailedError ''job-1'' [])"
  by (simp add: run_simps clock_1s_def api_failed_blank_def options_default_def
      envelope_failed_blank_def)

text \<open>
  Claim C3, as amended. Let \<^verbatim>\<open>maxPollingAttempts\<close> be a whole number \<open>n\<close>. In every
  run in which each of the \<open>n\<close> attempts passes the cancellation check and the
  elapsed-time check, is answered by an envelope whose status is neither \<^verbatim>\<open>completed\<close>
  nor \<^verbatim>\<open>failed\<close>, and waits to the end of its interval without being cancelled,
  \<^verbatim>\<open>pollUntilComplete\<close> raises a \<^verbatim>\<open>PollingTimeoutError\<close> whose \<^verbatim>\<open>attempts\<close> field is
  \<open>n\<close>, after exactly \<open>n\<close> calls.
\<close>

theorem attempts_exhausted_raises_timeout:
  assumes "the_maxPollingAttempts options = of_nat n"
    and "\<And>k. 0 < k \<Longrightarrow> k \<le> n \<Longrightarrow> \<not> signal_aborted options k"
    and "\<And>k. 0 < k \<Longrightarrow> k \<le> n \<Longrightarrow> dateNow k - dateNow 0 < the_timeoutMs options"
    and "\<And>k. 0 < k \<Longrightarrow> k \<le> n \<Longrightarrow>
           \<exists>e. apiCall k = Resolves e \<and> status e \<noteq> ''completed'' \<and> status e \<noteq> ''failed'' \<and>
               snd (sleepWithAbort (timer k) (retryAfterMs options e) (signal_at options (AtWait k))) = Inr ()"
  shows "\<exists>j. outcome (pollUntilComplete timer dateNow apiCall options) =
               Inl (PollingTimeoutError j (the_timeoutMs options) n) \<and>
             calls (pollUntilComplete timer dateNow apiCall options) = n"
proof -
  have "of_nat n \<le> the_maxPollingAttempts options"
    using assms(1) by simp
  from run_keeps_polling [where timer = timer and dateNow = dateNow and apiCall = apiCall, OF this assms(2,3,4)]
  obtain pre j where
    pre: "length pre = n" and
    run: "pollUntilComplete timer dateNow apiCall options =
            (pre @ fst (poll_loop timer dateNow apiCall options n j),
             snd (poll_loop timer dateNow apiCall options n j))"
    by blast
  have "\<not> of_nat n < the_maxPollingAttempts options"
    using assms(1) by simp
  then have "poll_loop timer dateNow apiCall options n j =
      ([], Inl (PollingTimeoutError (str_or j ''unknown'') (the_timeoutMs options) n))"
    by (rule poll_loop_exhausted)
  with run pre show ?thesis
    by (simp add: outcome_def calls_def)
qed

text \<open>Three attempts, all answered \<^verbatim>\<open>processing\<close>: a timeout error with
  \<open>attempts = 3\<close>.\<close>

theorem attempts_exhausted_witness:
  "the_maxPollingAttempts options_B = of_nat 3 \<and>
   outcome (pollUntilComplete timer_node clock_1s api_B options_B) =
     Inl (PollingTimeoutError ''job-1'' 900000 3) \<and>
   calls (pollUntilComplete timer_node clock_1s api_B options_B) = 3"
proof -
  have m: "the_maxPollingAttempts options_B = of_nat 3"
    by (simp add: the_maxPollingAttempts_def options_B_def)
  have a: "\<not> signal_aborted options_B k" for k
    by (simp add: signal_aborted_def signal_at_def options_B_def)
  have b: "clock_1s k - clock_1s 0 < the_timeoutMs options_B" if "k \<le> 3" for k
  proof -
    from that have "k = 0 \<or> k = 1 \<or> k = 2 \<or> k = 3" by arith
    then show ?thesis
      by (auto simp: clock_1s_def the_timeoutMs_def options_B_def)
  qed
  have c: "\<exists>e. api_B k = Resolves e \<and> status e \<noteq> ''completed'' \<and> status e \<noteq> ''failed'' \<and>
             snd (sleepWithAbort (timer_node k) (retryAfterMs options_B e) (signal_at options_B (AtWait k))) = Inr ()"
    for k
    by (simp add: api_B_def envelope_processing_def sleepWithAbort_def signal_at_def options_B_def)
  from attempts_exhausted_raises_timeout [where options = options_B and n = 3
      and timer = timer_node and dateNow = clock_1s and apiCall = api_B, OF m a b c]
  have "\<exists>j. outcome (pollUntilComplete timer_node clock_1s api_B options_B) =
               Inl (PollingTimeoutError j (the_timeoutMs options_B) 3) \<and>
             calls (pollUntilComplete timer_node clock_1s api_B options_B) = 3"
    by simp
  moreover have "outcome (pollUntilComplete timer_node clock_1s api_B options_B) =
     Inl (PollingTimeoutError ''job-1'' 900000 3)"
    by (simp add: run_simps clock_1s_def api_B_def options_B_def envelope_processing_def
        numeral_3_eq_3)
  ultimately show ?thesis using m by auto
qed

text \<open>Claim C3 as stated fails when the wait that follows the last attempt is cancelled:
  with one attempt allowed, the attempt count reaches the maximum, the only envelope is
  \<^verbatim>\<open>processing\<close>, and the error raised is the cancellation error.\<close>

theorem cancelled_final_wait_counterexample:
  "the_maxPollingAttempts options_one_attempt_cancelled = 1 \<and>
   map reply (fst (pollUntilComplete timer_node clock_1s api_B options_one_attempt_cancelled)) =
     [Resolves envelope_processing] \<and>
   status envelope_processing = ''processing'' \<and>
   outcome (pollUntilComplete timer_node clock_1s api_B options_one_attempt_cancelled) = Inl AbortError"
  by (simp add: run_simps clock_1s_def api_B_def options_one_attempt_cancelled_def
      envelope_processing_def abort_in_first_wait_def)

text \<open>
  Claim C4, as amended. In every iteration of the loop that the run reaches within the
  attempt budget and in which the cancellation handle is not found triggered, the
  elapsed-time check comes before the call: if the time elapsed since the start is at
  least \<^verbatim>\<open>timeoutMs\<close>, \<^verbatim>\<open>pollUntilComplete\<close> raises a \<^verbatim>\<open>PollingTimeoutError\<close> carrying
  the number of that attempt, and the call of that attempt is not issued (the run has
  made the \<open>n\<close> calls of the earlier attempts only).
\<close>

theorem elapsed_timeout_precedes_call:
  assumes "of_nat n < the_maxPollingAttempts options"
    and "\<And>k. 0 < k \<Longrightarrow> k \<le> n \<Longrightarrow> \<not> signal_aborted options k"
    and "\<And>k. 0 < k \<Longrightarrow> k \<le> n \<Longrightarrow> dateNow k - dateNow 0 < the_timeoutMs options"
    and "\<And>k. 0 < k \<Longrightarrow> k \<le> n \<Longrightarrow>
           \<exists>e. apiCall k = Resolves e \<and> status e \<noteq> ''completed'' \<and> status e \<noteq> ''failed'' \<and>
               snd (sleepWithAbort (timer k) (retryAfterMs options e) (signal_at options (AtWait k))) = Inr ()"
    and "\<not> signal_aborted options (Suc n)"
    and "the_timeoutMs options \<le> dateNow (Suc n) - dateNow 0"
  shows "\<exists>j. outcome (pollUntilComplete timer dateNow apiCall options) =
               Inl (PollingTimeoutError j (the_timeoutMs options) (Suc n)) \<and>
             calls (pollUntilComplete timer dateNow apiCall options) = n"
proof -
  have "of_nat n \<le> the_maxPollingAttempts options"
    using assms(1) by simp
  from run_keeps_polling [where timer = timer and dateNow = dateNow and apiCall = apiCall, OF this assms(2,3,4)]
  obtain pre j where
    pre: "length pre = n" and
    run: "pollUntilComplete timer dateNow apiCall options =
            (pre @ fst (poll_loop timer dateNow apiCall options n j),
             snd (poll_loop timer dateNow apiCall options n j))"
    by blast
  have "iteration timer dateNow apiCall options n j =
      ([], Settled (Inl (PollingTimeoutError (str_or j ''unknown'') (the_timeoutMs options)
                           (Suc n))))"
    using assms(5,6) by (rule iteration_timeout)
  with assms(1) have "poll_loop timer dateNow apiCall options n j =
      ([], Inl (PollingTimeoutError (str_or j ''unknown'') (the_timeoutMs options) (Suc n)))"
    by (rule poll_loop_settled)
  with run pre show ?thesis
    by (simp add: outcome_def calls_def)
qed

text \<open>A timeout of 1500 ms with a clock that advances by one second per attempt: the
  second attempt finds 2000 ms elapsed and raises the timeout error; one call was made, of
  a budget of 90.\<close>

theorem elapsed_timeout_witness:
  "of_nat 1 < the_maxPollingAttempts options_short_timeout \<and>
   the_timeoutMs options_short_timeout \<le> clock_1s (Suc 1) - clock_1s 0 \<and>
   outcome (pollUntilComplete timer_node clock_1s api_B options_short_timeout) =
     Inl (PollingTimeoutError ''job-1'' 1500 2) \<and>
   calls (pollUntilComplete timer_node clock_1s api_B options_short_timeout) = 1"
proof -
  have m: "of_nat 1 < the_maxPollingAttempts options_short_timeout"
    by (simp add: the_maxPollingAttempts_def options_short_timeout_def)
  have a: "\<not> signal_aborted options_short_timeout k" for k
    by (simp add: signal_aborted_def signal_at_def options_short_timeout_def)
  have b: "clock_1s k - clock_1s 0 < the_timeoutMs options_short_timeout" if "k \<le> 1" for k
  proof -
    from that have "k = 0 \<or> k = 1" by arith
    then show ?thesis
      by (auto simp: clock_1s_def the_timeoutMs_def options_short_timeout_def)
  qed
  have c: "\<exists>e. api_B k = Resolves e \<and> status e \<noteq> ''completed'' \<and> status e \<noteq> ''failed'' \<and>
             snd (sleepWithAbort (timer_node k) (retryAfterMs options_short_timeout e)
                    (signal_at options_short_timeout (AtWait k))) = Inr ()"
    for k
    by (simp add: api_B_def envelope_processing_def sleepWithAbort_def signal_at_def
        options_short_timeout_def)
  have d: "the_timeoutMs options_short_timeout \<le> clock_1s (Suc 1) - clock_1s 0"
    by (simp add: clock_1s_def the_timeoutMs_def options_short_timeout_def)
  from elapsed_timeout_precedes_call [where n = 1 and options = options_short_timeout
      and timer = timer_node and dateNow = clock_1s and apiCall = api_B, OF m a b c a d]
  have "\<exists>j. outcome (pollUntilComplete timer_node clock_1s api_B options_short_timeout) =
               Inl (PollingTimeoutError j (the_timeoutMs options_short_timeout) (Suc 1)) \<and>
             calls (pollUntilComplete timer_node clock_1s api_B options_short_timeout) = 1"
    by simp
  moreover have "outcome (pollUntilComplete timer_node clock_1s api_B options_short_timeout) =
     Inl (PollingTimeoutError ''job-1'' 1500 2)"
    by (simp add: run_simps clock_1s_def api_B_def options_short_timeout_def
        envelope_processing_def numeral_2_eq_2)
  ultimately show ?thesis using m d by auto
qed

text \<open>Claim C4 as stated fails when the handle is already triggered: the cancellation
  check comes first, and the error is the cancellation error although the elapsed time
  has reached \<^verbatim>\<open>timeoutMs\<close>.\<close>

theorem cancelled_before_timeout_counterexample:
  "of_nat 0 < the_maxPollingAttempts options_timeout_cancelled \<and>
   the_timeoutMs options_timeout_cancelled \<le> clock_1s 1 - clock_1s 0 \<and>
   pollUntilComplete timer_node clock_1s api_B options_timeout_cancelled = ([], Inl AbortError)"
  by (simp add: run_simps clock_1s_def api_B_def options_timeout_cancelled_def
      already_aborted_def)

text \<open>
  Claim C5, as amended. The cancellation error has the name \<^verbatim>\<open>'AbortError'\<close>, which no
  \<^verbatim>\<open>PollingTimeoutError\<close> has. In every iteration that the run reaches within the attempt
  budget (\<^verbatim>\<open>attempt < maxPollingAttempts\<close>):
  \<^item> if the handle is found triggered at the top of the iteration, the cancellation error is
    raised and the call of that attempt is not issued;
  \<^item> if the handle is found triggered when the wait of that attempt begins (it was triggered
    while the call was in flight), the wait ends at once, the cancellation error is raised
    and no later call is issued;
  \<^item> if the handle is triggered during the wait of that attempt, before the platform fires
    the timer, the wait ends at that moment, short of the time the timer would have taken,
    and the cancellation error is raised.
\<close>

theorem cancellation_raises_abort_error:
  assumes "of_nat n < the_maxPollingAttempts options"
    and "\<And>k. 0 < k \<Longrightarrow> k \<le> n \<Longrightarrow> \<not> signal_aborted options k"
    and "\<And>k. 0 < k \<Longrightarrow> k \<le> n \<Longrightarrow> dateNow k - dateNow 0 < the_timeoutMs options"
    and "\<And>k. 0 < k \<Longrightarrow> k \<le> n \<Longrightarrow>
           \<exists>e. apiCall k = Resolves e \<and> status e \<noteq> ''completed'' \<and> status e \<noteq> ''failed'' \<and>
               snd (sleepWithAbort (timer k) (retryAfterMs options e)
                      (signal_at options (AtWait k))) = Inr ()"
  shows "error_name AbortError = ''AbortError'' \<and>
         (\<forall>j t a. error_name (PollingTimeoutError j t a) \<noteq> error_name AbortError) \<and>
         (signal_aborted options (Suc n) \<longrightarrow>
            outcome (pollUntilComplete timer dateNow apiCall options) = Inl AbortError \<and>
            calls (pollUntilComplete timer dateNow apiCall options) = n) \<and>
         (\<forall>e s.
            \<not> signal_aborted options (Suc n) \<and>
            dateNow (Suc n) - dateNow 0 < the_timeoutMs options \<and>
            apiCall (Suc n) = Resolves e \<and> status e \<noteq> ''completed'' \<and> status e \<noteq> ''failed'' \<and>
            signal_at options (AtWait (Suc n)) = Some s \<and> aborted s \<longrightarrow>
              outcome (pollUntilComplete timer dateNow apiCall options) = Inl AbortError \<and>
              calls (pollUntilComplete timer dateNow apiCall options) = Suc n \<and>
              waitEnd (last (fst (pollUntilComplete timer dateNow apiCall options))) =
                Some (0, Inl AbortError)) \<and>
         (\<forall>e s d.
            \<not> signal_aborted options (Suc n) \<and>
            dateNow (Suc n) - dateNow 0 < the_timeoutMs options \<and>
            apiCall (Suc n) = Resolves e \<and> status e \<noteq> ''completed'' \<and> status e \<noteq> ''failed'' \<and>
            signal_at options (AtWait (Suc n)) = Some s \<and> \<not> aborted s \<and>
            abortEventAfter s = Some d \<and> 0 \<le> d \<and>
            d < timer (Suc n) (retryAfterMs options e) \<longrightarrow>
              outcome (pollUntilComplete timer dateNow apiCall options) = Inl AbortError \<and>
              calls (pollUntilComplete timer dateNow apiCall options) = Suc n \<and>
              waitEnd (last (fst (pollUntilComplete timer dateNow apiCall options))) =
                Some (d, Inl AbortError))"
proof -
  have "of_nat n \<le> the_maxPollingAttempts options"
    using assms(1) by simp
  from run_keeps_polling [where timer = timer and dateNow = dateNow and apiCall = apiCall,
      OF this assms(2,3,4)]
  obtain pre j where
    pre: "length pre = n" and
    run: "pollUntilComplete timer dateNow apiCall options =
            (pre @ fst (poll_loop timer dateNow apiCall options n j),
             snd (poll_loop timer dateNow apiCall options n j))"
    by blast
  have before: "outcome (pollUntilComplete timer dateNow apiCall options) = Inl AbortError \<and>
      calls (pollUntilComplete timer dateNow apiCall options) = n"
    if "signal_aborted options (Suc n)"
  proof -
    from that have
      "iteration timer dateNow apiCall options n j = ([], Settled (Inl AbortError))"
      by (rule iteration_aborted)
    with assms(1) have "poll_loop timer dateNow apiCall options n j = ([], Inl AbortError)"
      by (rule poll_loop_settled)
    with run pre show ?thesis
      by (simp add: outcome_def calls_def)
  qed
  have rejected: "outcome (pollUntilComplete timer dateNow apiCall options) = Inl AbortError \<and>
      calls (pollUntilComplete timer dateNow apiCall options) = Suc n \<and>
      waitEnd (last (fst (pollUntilComplete timer dateNow apiCall options))) =
        Some (t, Inl AbortError)"
    if "\<not> signal_aborted options (Suc n)"
      and "dateNow (Suc n) - dateNow 0 < the_timeoutMs options"
      and "apiCall (Suc n) = Resolves e" and "status e \<noteq> ''completed''" and "status e \<noteq> ''failed''"
      and "sleepWithAbort (timer (Suc n)) (retryAfterMs options e)
             (signal_at options (AtWait (Suc n))) = (t, Inl AbortError)"
    for e :: "'a AsyncEnvelope" and t
  proof -
    from iteration_wait_rejected [where timer = timer and dateNow = dateNow
        and apiCall = apiCall and jid = j, OF that]
    obtain rd where
      it: "iteration timer dateNow apiCall options n j = ([rd], Settled (Inl AbortError))" and
      rd: "waitEnd rd = Some (t, Inl AbortError)"
      by blast
    from assms(1) it have "poll_loop timer dateNow apiCall options n j = ([rd], Inl AbortError)"
      by (rule poll_loop_settled)
    with run pre rd show ?thesis
      by (simp add: outcome_def calls_def)
  qed
  have at_wait: "outcome (pollUntilComplete timer dateNow apiCall options) = Inl AbortError \<and>
      calls (pollUntilComplete timer dateNow apiCall options) = Suc n \<and>
      waitEnd (last (fst (pollUntilComplete timer dateNow apiCall options))) =
        Some (0, Inl AbortError)"
    if "\<not> signal_aborted options (Suc n)"
      and "dateNow (Suc n) - dateNow 0 < the_timeoutMs options"
      and "apiCall (Suc n) = Resolves e" and "status e \<noteq> ''completed''" and "status e \<noteq> ''failed''"
      and "signal_at options (AtWait (Suc n)) = Some s" and "aborted s"
    for e :: "'a AsyncEnvelope" and s
    using rejected [OF that(1-5)] that(6,7) by (simp add: sleepWithAbort_aborted)
  have during: "outcome (pollUntilComplete timer dateNow apiCall options) = Inl AbortError \<and>
      calls (pollUntilComplete timer dateNow apiCall options) = Suc n \<and>
      waitEnd (last (fst (pollUntilComplete timer dateNow apiCall options))) =
        Some (d, Inl AbortError)"
    if "\<not> signal_aborted options (Suc n)"
      and "dateNow (Suc n) - dateNow 0 < the_timeoutMs options"
      and "apiCall (Suc n) = Resolves e" and "status e \<noteq> ''completed''" and "status e \<noteq> ''failed''"
      and "signal_at options (AtWait (Suc n)) = Some s" and "\<not> aborted s"
      and "abortEventAfter s = Some d" and "d < timer (Suc n) (retryAfterMs options e)"
    for e :: "'a AsyncEnvelope" and s d
    using rejected [OF that(1-5)] that(6-9) by (simp add: sleepWithAbort_cancelled)
  show ?thesis
    using before at_wait during by auto
qed

text \<open>A handle triggered before the first call: no call. A handle triggered while the
  first call is in flight: one call, and the wait ends at once. A handle triggered 1200 ms
  into the second wait, whose timer would fire after 10000 ms: two calls, and the wait ends
  after 1200 ms.\<close>

theorem cancellation_witness:
  "signal_aborted options_cancelled (Suc 0) \<and>
   outcome (pollUntilComplete timer_node clock_1s api_B options_cancelled) = Inl AbortError \<and>
   calls (pollUntilComplete timer_node clock_1s api_B options_cancelled) = 0 \<and>
   outcome (pollUntilComplete timer_node clock_1s api_B options_cancelled_in_call) =
     Inl AbortError \<and>
   calls (pollUntilComplete timer_node clock_1s api_B options_cancelled_in_call) = Suc 0 \<and>
   waitEnd (last (fst (pollUntilComplete timer_node clock_1s api_B options_cancelled_in_call))) =
     Some (0, Inl AbortError) \<and>
   outcome (pollUntilComplete timer_node clock_1s api_B options_cancelled_later) =
     Inl AbortError \<and>
   calls (pollUntilComplete timer_node clock_1s api_B options_cancelled_later) = Suc 1 \<and>
   waitEnd (last (fst (pollUntilComplete timer_node clock_1s api_B options_cancelled_later))) =
     Some (1200, Inl AbortError) \<and>
   timer_node (Suc 1) (retryAfterMs options_cancelled_later envelope_processing) = 10000"
proof -
  have st: "status envelope_processing \<noteq> ''completed''" "status envelope_processing \<noteq> ''failed''"
    by (simp_all add: envelope_processing_def)
  have m0: "of_nat 0 < the_maxPollingAttempts options_cancelled"
    by (simp add: the_maxPollingAttempts_def options_cancelled_def)
  have trig: "signal_aborted options_cancelled (Suc 0)"
    by (simp add: signal_aborted_def signal_at_def options_cancelled_def already_aborted_def)
  have first: "outcome (pollUntilComplete timer_node clock_1s api_B options_cancelled) =
       Inl AbortError \<and>
     calls (pollUntilComplete timer_node clock_1s api_B options_cancelled) = 0"
    using cancellation_raises_abort_error [where n = 0 and options = options_cancelled
        and timer = timer_node and dateNow = clock_1s and apiCall = api_B, OF m0] trig
    by simp
  have m0': "of_nat 0 < the_maxPollingAttempts options_cancelled_in_call"
    by (simp add: the_maxPollingAttempts_def options_cancelled_in_call_def)
  have in_call: "\<not> signal_aborted options_cancelled_in_call (Suc 0) \<and>
     clock_1s (Suc 0) - clock_1s 0 < the_timeoutMs options_cancelled_in_call \<and>
     signal_at options_cancelled_in_call (AtWait (Suc 0)) =
       Some \<lparr> aborted = True, abortEventAfter = None \<rparr>"
    by (simp add: signal_aborted_def signal_at_def options_cancelled_in_call_def
        abort_during_first_call_def clock_1s_def the_timeoutMs_def)
  have second: "outcome (pollUntilComplete timer_node clock_1s api_B options_cancelled_in_call) =
       Inl AbortError \<and>
     calls (pollUntilComplete timer_node clock_1s api_B options_cancelled_in_call) = Suc 0 \<and>
     waitEnd (last (fst (pollUntilComplete timer_node clock_1s api_B
       options_cancelled_in_call))) = Some (0, Inl AbortError)"
    using cancellation_raises_abort_error [where n = 0 and options = options_cancelled_in_call
        and timer = timer_node and dateNow = clock_1s and apiCall = api_B, OF m0'] in_call st
    by (simp add: api_B_def)
  have m1: "of_nat 1 < the_maxPollingAttempts options_cancelled_later"
    by (simp add: the_maxPollingAttempts_def options_cancelled_later_def)
  have a: "\<not> signal_aborted options_cancelled_later k" for k
    by (simp add: signal_aborted_def signal_at_def options_cancelled_later_def
        abort_in_second_wait_def)
  have b: "clock_1s k - clock_1s 0 < the_timeoutMs options_cancelled_later" if "k \<le> 2" for k
  proof -
    from that have "k = 0 \<or> k = 1 \<or> k = 2" by arith
    then show ?thesis
      by (auto simp: clock_1s_def the_timeoutMs_def options_cancelled_later_def)
  qed
  have ms: "retryAfterMs options_cancelled_later envelope_processing = 10000"
    by (simp add: retryAfterMs_def opt_num_or_def the_defaultRetryIntervalMs_def js_mul_def
        js_div_def options_cancelled_later_def envelope_processing_def)
  have c: "\<exists>e. api_B k = Resolves e \<and> status e \<noteq> ''completed'' \<and> status e \<noteq> ''failed'' \<and>
             snd (sleepWithAbort (timer_node k) (retryAfterMs options_cancelled_later e)
                    (signal_at options_cancelled_later (AtWait k))) = Inr ()"
    if "k \<le> 1" and "0 < k" for k
  proof -
    from that have "k = 1" by arith
    then show ?thesis
      using st ms
      by (simp add: api_B_def sleepWithAbort_def signal_at_def options_cancelled_later_def
          abort_in_second_wait_def timer_node_def)
  qed
  have d: "timer_node (Suc 1) (retryAfterMs options_cancelled_later envelope_processing) = 10000"
    using ms by (simp add: timer_node_def)
  have s: "signal_at options_cancelled_later (AtWait (Suc 1)) =
             Some \<lparr> aborted = False, abortEventAfter = Some 1200 \<rparr>"
    by (simp add: signal_at_def options_cancelled_later_def abort_in_second_wait_def)
  have third: "outcome (pollUntilComplete timer_node clock_1s api_B options_cancelled_later) =
       Inl AbortError \<and>
     calls (pollUntilComplete timer_node clock_1s api_B options_cancelled_later) = Suc 1 \<and>
     waitEnd (last (fst (pollUntilComplete timer_node clock_1s api_B options_cancelled_later))) =
       Some (1200, Inl AbortError)"
    using cancellation_raises_abort_error [where n = 1 and options = options_cancelled_later
        and timer = timer_node and dateNow = clock_1s and apiCall = api_B, OF m1 a b c]
      a [of "Suc 1"] b [of "Suc 1"] d s st
    by (simp add: api_B_def)
  show ?thesis
    using trig first second third d by simp
qed

text \<open>Claim C5 as stated fails when no attempt is allowed (\<^verbatim>\<open>maxPollingAttempts = 0\<close>): the
  handle is triggered before any call, and the error raised is the timeout error.\<close>

theorem cancelled_without_budget_counterexample:
  "signal_aborted options_cancelled_no_budget 1 \<and>
   pollUntilComplete timer_node clock_1s api_B options_cancelled_no_budget =
     ([], Inl (PollingTimeoutError ''unknown'' 900000 0)) \<and>
   outcome (pollUntilComplete timer_node clock_1s api_B options_cancelled_no_budget) \<noteq>
     Inl AbortError"
  by (simp add: run_simps clock_1s_def api_B_def options_cancelled_no_budget_def
      already_aborted_def)




text \<open>
  Claim C7. Wherever in a run the operation returns an envelope with status
  \<^verbatim>\<open>completed\<close> and no result, \<^verbatim>\<open>pollUntilComplete\<close> raises an error (a plain
  \<^verbatim>\<open>Error\<close> saying that the job completed but the result is undefined): the run is not a
  success, and the envelope is not retried, no call follows it.
\<close>

theorem completed_without_result_is_an_error:
  assumes "fst (pollUntilComplete timer dateNow apiCall options) = pre @ rd # post"
    and "reply rd = Resolves e" and "status e = ''completed''" and "result e = None"
  shows "outcome (pollUntilComplete timer dateNow apiCall options) =
           Inl (Error (''Job '' @ jobId e @ '' completed but result is undefined'')) \<and>
         (\<forall>v. outcome (pollUntilComplete timer dateNow apiCall options) \<noteq> Inr v) \<and>
         post = []"
proof -
  from run_round [OF assms(1)] obtain j st where
    it: "iteration timer dateNow apiCall options (length pre) j = ([rd], st)" and
    st: "\<And>out. st = Settled out \<Longrightarrow>
           post = [] \<and> outcome (pollUntilComplete timer dateNow apiCall options) = out"
    by blast
  from iteration_completed [OF it assms(2,3)] assms(4) have
    "st = Settled (Inl (Error (''Job '' @ jobId e @ '' completed but result is undefined'')))"
    by simp
  from st [OF this] show ?thesis
    by simp
qed

text \<open>A single envelope \<^verbatim>\<open>completed\<close> without a result.\<close>

theorem completed_without_result_witness:
  "fst (pollUntilComplete timer_node clock_1s api_D options_default) =
     [] @ \<lparr> reply = Resolves envelope_no_result, notified = None, waitMs = None,
             waitEnd = None \<rparr> # [] \<and>
   result envelope_no_result = None \<and>
   outcome (pollUntilComplete timer_node clock_1s api_D options_default) =
     Inl (Error ''Job job-1 completed but result is undefined'')"
proof -
  have run: "fst (pollUntilComplete timer_node clock_1s api_D options_default) =
     [] @ \<lparr> reply = Resolves envelope_no_result, notified = None, waitMs = None,
             waitEnd = None \<rparr> # []"
    by (simp add: run_simps clock_1s_def api_D_def options_default_def envelope_no_result_def)
  show ?thesis
    using run completed_without_result_is_an_error [OF run, of envelope_no_result]
    by (simp add: envelope_no_result_def)
qed



text \<open>
  Claim C9. Whatever values in \<open>[0, 1)\<close> the random source yields, the key built by the
  fallback branch of \<^verbatim>\<open>defaultGenerateIdempotencyKey\<close> (no \<^verbatim>\<open>crypto.randomUUID\<close>) has 36
  characters, hyphens at positions 8, 13, 18 and 23, the character \<^verbatim>\<open>4\<close> at position 14
  and one of \<^verbatim>\<open>8\<close>, \<^verbatim>\<open>9\<close>, \<^verbatim>\<open>a\<close>, \<^verbatim>\<open>b\<close> at position 19 (positions count from 0).
\<close>

theorem fallback_key_layout:
  assumes "\<And>i. 0 \<le> random i \<and> random i < 1"
  shows "length (defaultGenerateIdempotencyKey None random) = 36 \<and>
         defaultGenerateIdempotencyKey None random ! 8 = CHR ''-'' \<and>
         defaultGenerateIdempotencyKey None random ! 13 = CHR ''-'' \<and>
         defaultGenerateIdempotencyKey None random ! 18 = CHR ''-'' \<and>
         defaultGenerateIdempotencyKey None random ! 23 = CHR ''-'' \<and>
         defaultGenerateIdempotencyKey None random ! 14 = CHR ''4'' \<and>
         defaultGenerateIdempotencyKey None random ! 19 \<in>
           {CHR ''8'', CHR ''9'', CHR ''a'', CHR ''b''}"
proof -
  define h where "h = (\<lambda>x :: rat. hex_digit (nat \<lfloor>x * 16\<rfloor>))"
  define v where "v = (\<lambda>x. hd (replacer x CHR ''y''))"
  have x: "replacer (random i) CHR ''x'' = [h (random i)]" for i
    using assms [of i] by (simp add: replacer_x h_def)
  have y: "replacer z CHR ''y'' = [v z]" for z
    using replacer_y [of z] by (auto simp: v_def)
  have v: "v z \<in> {CHR ''8'', CHR ''9'', CHR ''a'', CHR ''b''}" for z
    using replacer_y [of z] by (auto simp: v_def)
  have key: "defaultGenerateIdempotencyKey None random =
    [h (random 0), h (random 1), h (random 2), h (random 3),
     h (random 4), h (random 5), h (random 6), h (random 7), CHR ''-'',
     h (random 8), h (random 9), h (random 10), h (random 11), CHR ''-'',
     CHR ''4'', h (random 12), h (random 13), h (random 14), CHR ''-'',
     v (random 15), h (random 16), h (random 17), h (random 18), CHR ''-'',
     h (random 19), h (random 20), h (random 21), h (random 22),
     h (random 23), h (random 24), h (random 25), h (random 26),
     h (random 27), h (random 28), h (random 29), h (random 30)]"
    by (simp add: defaultGenerateIdempotencyKey_def x y eval_nat_numeral)
  show ?thesis
    unfolding key using v [of "random 15"] by simp
qed

text \<open>The key built from the draws \<open>0/16, 1/16, \<dots>\<close>\<close>

theorem fallback_key_layout_witness:
  "defaultGenerateIdempotencyKey None random_sample = ''01234567-89ab-4cde-b012-3456789abcde'' \<and>
   length (defaultGenerateIdempotencyKey None random_sample) = 36 \<and>
   defaultGenerateIdempotencyKey None random_sample ! 14 = CHR ''4'' \<and>
   defaultGenerateIdempotencyKey None random_sample ! 19 = CHR ''b''"
proof -
  have r: "0 \<le> random_sample i \<and> random_sample i < 1" for i
    by (simp add: random_sample_def)
  have "defaultGenerateIdempotencyKey None random_sample = ''01234567-89ab-4cde-b012-3456789abcde''"
    by code_simp
  with fallback_key_layout [of random_sample, OF r] show ?thesis
    by simp
qed

text \<open>
  Claim C10. If \<^verbatim>\<open>maxPollingAttempts\<close> is zero or negative, \<^verbatim>\<open>pollUntilComplete\<close>
  raises a \<^verbatim>\<open>PollingTimeoutError\<close> with job id \<^verbatim>\<open>'unknown'\<close> and \<open>attempts = 0\<close>, and
  the run has no round: no call, no wait. The result is the same for every state of the
  cancellation handle, so a handle already triggered yields the timeout error too.
\<close>

theorem no_budget_raises_timeout_at_once:
  assumes "maxPollingAttempts options = Some m" and "m \<le> 0"
  shows "pollUntilComplete timer dateNow apiCall options =
           ([], Inl (PollingTimeoutError ''unknown'' (the_timeoutMs options) 0))"
  using assms
  by (simp add: pollUntilComplete_def poll_loop_exhausted the_maxPollingAttempts_def str_or_def)

text \<open>A budget of \<open>- 1\<close> and a handle that is already triggered.\<close>

theorem no_budget_raises_timeout_at_once_witness:
  "maxPollingAttempts options_no_budget = Some (- 1) \<and>
   signal_aborted options_no_budget 1 \<and>
   pollUntilComplete timer_node clock_1s api_A options_no_budget =
     ([], Inl (PollingTimeoutError ''unknown'' 900000 0))"
proof -
  have m: "maxPollingAttempts options_no_budget = Some (- 1)"
    by (simp add: options_no_budget_def)
  show ?thesis
    using m no_budget_raises_timeout_at_once [OF m, of timer_node clock_1s api_A]
    by (simp add: options_no_budget_def the_timeoutMs_def signal_aborted_def signal_at_def
        already_aborted_def)
qed

end
